theory Spec2Isabelle
  imports Complex_Main
begin

section \<open>Coordinates and the geodistance function\<close>

text \<open>
  \<^verbatim>\<open>src/services/LocationService.ts\<close>. A coordinate is the object
  \<^verbatim>\<open>{latitude: number; longitude: number}\<close>. The numbers are modelled twice. For the
  state machine they are real numbers and the arithmetic of \<^verbatim>\<open>calculateDistance\<close> is
  exact: the machine reads a distance only through its comparisons with 20 and 50. For
  the properties of the distance function itself they are the doubles of the platform,
  with NaN, the infinities, overflow and rounding (the section on floating-point
  arithmetic below). Lemma \<open>calculateDistance_js_exact\<close> relates the two: where nothing
  is rounded, the floating-point function returns the value of the exact one.
\<close>

record location =
  latitude :: real
  longitude :: real

text \<open>
  \<^verbatim>\<open>Math.atan2(y, x)\<close> on real arguments. In \<^verbatim>\<open>calculateDistance\<close> both arguments
  are square roots of numbers between 0 and 1 (lemma \<open>haversine_range\<close> below), so only
  the branches with \<open>0 \<le> y\<close> and \<open>0 \<le> x\<close> are reached there, and
  \<^verbatim>\<open>Math.sqrt\<close> is never applied to a negative number.
\<close>

definition atan2 :: "real \<Rightarrow> real \<Rightarrow> real" where
  "atan2 y x =
     (if 0 < x then arctan (y / x)
      else if x < 0 then (if 0 \<le> y then arctan (y / x) + pi else arctan (y / x) - pi)
      else if 0 < y then pi / 2
      else if y < 0 then - (pi / 2)
      else 0)"

text \<open>\<^verbatim>\<open>calculateDistance\<close>, lines 146 to 162: the haversine formula.\<close>

definition calculateDistance :: "location \<Rightarrow> location \<Rightarrow> real" where
  "calculateDistance pos1 pos2 =
     (let R = 6371000;
          phi1 = (latitude pos1 * pi) / 180;
          phi2 = (latitude pos2 * pi) / 180;
          dphi = ((latitude pos2 - latitude pos1) * pi) / 180;
          dlam = ((longitude pos2 - longitude pos1) * pi) / 180;
          a = sin (dphi / 2) * sin (dphi / 2)
              + cos phi1 * cos phi2 * sin (dlam / 2) * sin (dlam / 2);
          c = 2 * atan2 (sqrt a) (sqrt (1 - a))
      in R * c)"

text \<open>The value of the local \<^verbatim>\<open>a\<close> of \<^verbatim>\<open>calculateDistance\<close>, named for the proofs.\<close>

definition haversine :: "location \<Rightarrow> location \<Rightarrow> real" where
  "haversine pos1 pos2 =
     sin (((latitude pos2 - latitude pos1) * pi) / 180 / 2)
       * sin (((latitude pos2 - latitude pos1) * pi) / 180 / 2)
     + cos ((latitude pos1 * pi) / 180) * cos ((latitude pos2 * pi) / 180)
       * sin (((longitude pos2 - longitude pos1) * pi) / 180 / 2)
       * sin (((longitude pos2 - longitude pos1) * pi) / 180 / 2)"

section \<open>The geodistance function in floating-point arithmetic\<close>

text \<open>
  A JavaScript number: NaN, an infinity, or a finite value. The two zeros are one value
  here. \<^verbatim>\<open>==\<close> does not tell them apart, and neither does \<^verbatim>\<open>calculateDistance\<close>:
  it never divides by a computed number, and \<^verbatim>\<open>Math.atan2\<close> depends on the sign of a
  zero by more than the sign of its result only when both arguments are zeros, which the
  square roots of \<^verbatim>\<open>a\<close> and \<^verbatim>\<open>1 - a\<close> never both are.
\<close>

datatype number = NaN | PosInf | NegInf | Fin real

fun fneg :: "number \<Rightarrow> number" where
  "fneg NaN = NaN"
| "fneg PosInf = NegInf"
| "fneg NegInf = PosInf"
| "fneg (Fin x) = Fin (- x)"


text \<open>The operators \<^verbatim>\<open>+\<close>, \<^verbatim>\<open>-\<close> and \<^verbatim>\<open>*\<close> on numbers.\<close>

fun fadd :: "(real \<Rightarrow> number) \<Rightarrow> number \<Rightarrow> number \<Rightarrow> number" where
  "fadd r (Fin x) (Fin y) = r (x + y)"
| "fadd r NaN y = NaN"
| "fadd r x NaN = NaN"
| "fadd r PosInf NegInf = NaN"
| "fadd r NegInf PosInf = NaN"
| "fadd r PosInf y = PosInf"
| "fadd r NegInf y = NegInf"
| "fadd r (Fin x) y = y"

definition fsub :: "(real \<Rightarrow> number) \<Rightarrow> number \<Rightarrow> number \<Rightarrow> number" where
  "fsub r x y = fadd r x (fneg y)"

fun fmul :: "(real \<Rightarrow> number) \<Rightarrow> number \<Rightarrow> number \<Rightarrow> number" where
  "fmul r (Fin x) (Fin y) = r (x * y)"
| "fmul r NaN y = NaN"
| "fmul r x NaN = NaN"
| "fmul r (Fin x) y = (if x = 0 then NaN else if 0 < x then y else fneg y)"
| "fmul r x (Fin y) = (if y = 0 then NaN else if 0 < y then x else fneg x)"
| "fmul r PosInf y = y"
| "fmul r NegInf y = fneg y"



















section \<open>The location service and its host\<close>

text \<open>
  The three handlers passed to \<^verbatim>\<open>startLocationTracking\<close> are the outputs of the
  service: a call of \<^verbatim>\<open>onLocationUpdate\<close>, \<^verbatim>\<open>onParkingDetected\<close> or
  \<^verbatim>\<open>onLeavingDetected\<close> is recorded with its argument. The specification's
  events \<open>ParkDetected\<close> and \<open>LeavingDetected\<close> are the last two.
\<close>

datatype callback =
  OnLocationUpdate location
| OnParkingDetected location
| OnLeavingDetected location

text \<open>
  A timeout pending in the host: the handle \<^verbatim>\<open>setTimeout\<close> returned, the time
  (in milliseconds) at which the host runs the closure, and the \<^verbatim>\<open>newLocation\<close>
  the closure of \<^verbatim>\<open>detectParkingState\<close> captured.
\<close>

record timeout =
  handle :: nat
  due :: nat
  captured :: location

text \<open>
  The first four fields are the private fields of the class \<^verbatim>\<open>LocationService\<close>
  that are assigned (\<^verbatim>\<open>stationaryTimer\<close> holds a handle, an object that is truthy
  exactly when it is not null; \<^verbatim>\<open>stationaryThreshold\<close> is never assigned and is the
  constant below). The last three are the host: the timeouts that \<^verbatim>\<open>setTimeout\<close> has scheduled
  and that have neither run nor been cleared, the subscriptions of
  \<^verbatim>\<open>Geolocation.watchPosition\<close> that have not been cleared, and the next unused
  handle.
\<close>

record system =
  watchId :: "nat option"
  lastLocation :: "location option"
  isParked :: bool
  stationaryTimer :: "nat option"
  timeouts :: "timeout list"
  watches :: "nat list"
  next_id :: nat

definition stationaryThreshold :: nat where
  "stationaryThreshold = 30"

text \<open>The freshly constructed instance, lines 6 to 11, in a host with nothing pending.\<close>

definition new_LocationService :: system where
  "new_LocationService =
     \<lparr>watchId = None, lastLocation = None, isParked = False, stationaryTimer = None,
      timeouts = [], watches = [], next_id = 1\<rparr>"

definition setTimeout :: "location \<Rightarrow> nat \<Rightarrow> nat \<Rightarrow> system \<Rightarrow> nat \<times> system" where
  "setTimeout loc delay now s =
     (next_id s,
      s\<lparr>timeouts := timeouts s @ [\<lparr>handle = next_id s, due = now + delay, captured = loc\<rparr>],
        next_id := Suc (next_id s)\<rparr>)"

definition clearTimeout :: "nat \<Rightarrow> system \<Rightarrow> system" where
  "clearTimeout h s = s\<lparr>timeouts := filter (\<lambda>t. handle t \<noteq> h) (timeouts s)\<rparr>"

definition watchPosition :: "system \<Rightarrow> nat \<times> system" where
  "watchPosition s =
     (next_id s, s\<lparr>watches := watches s @ [next_id s], next_id := Suc (next_id s)\<rparr>)"

definition clearWatch :: "nat \<Rightarrow> system \<Rightarrow> system" where
  "clearWatch w s = s\<lparr>watches := removeAll w (watches s)\<rparr>"

text \<open>
  The closure given to \<^verbatim>\<open>setTimeout\<close>, lines 125 to 129, run by the host when the
  timeout is due: it reports the location it captured.
\<close>

definition stationaryTimer_callback :: "location \<Rightarrow> system \<Rightarrow> callback list \<times> system" where
  "stationaryTimer_callback newLocation s =
     ([OnParkingDetected newLocation], s\<lparr>isParked := True, stationaryTimer := None\<rparr>)"

text \<open>
  \<^verbatim>\<open>detectParkingState\<close>, lines 112 to 144. \<open>now\<close> is the time of the call; the
  code reads it only through \<^verbatim>\<open>setTimeout\<close>.
\<close>

definition detectParkingState :: "nat \<Rightarrow> location \<Rightarrow> system \<Rightarrow> callback list \<times> system" where
  "detectParkingState now newLocation s =
     (case lastLocation s of
        None \<Rightarrow> ([], s)
      | Some lastLoc \<Rightarrow>
          (let distance = calculateDistance lastLoc newLocation;
               isStationary = (distance < 20)
           in if isStationary \<and> \<not> isParked s then
                (case stationaryTimer s of
                   None \<Rightarrow>
                     (case setTimeout newLocation (stationaryThreshold * 1000) now s of
                        (h, s1) \<Rightarrow> ([], s1\<lparr>stationaryTimer := Some h\<rparr>))
                 | Some h \<Rightarrow> ([], s))
              else if \<not> isStationary then
                (let s1 = (case stationaryTimer s of
                             Some h \<Rightarrow> (clearTimeout h s)\<lparr>stationaryTimer := None\<rparr>
                           | None \<Rightarrow> s)
                 in if isParked s1 \<and> distance > 50
                    then ([OnLeavingDetected lastLoc], s1\<lparr>isParked := False\<rparr>)
                    else ([], s1))
              else ([], s)))"

text \<open>
  The success callback given to \<^verbatim>\<open>Geolocation.watchPosition\<close>, lines 80 to 89:
  the specification's feed operation.
\<close>

definition watchPosition_callback :: "nat \<Rightarrow> location \<Rightarrow> system \<Rightarrow> callback list \<times> system" where
  "watchPosition_callback now newLocation s =
     (case detectParkingState now newLocation s of
        (out, s1) \<Rightarrow> (OnLocationUpdate newLocation # out, s1\<lparr>lastLocation := Some newLocation\<rparr>))"

text \<open>\<^verbatim>\<open>startLocationTracking\<close>, lines 74 to 99.\<close>

definition startLocationTracking :: "system \<Rightarrow> system" where
  "startLocationTracking s = (case watchPosition s of (w, s1) \<Rightarrow> s1\<lparr>watchId := Some w\<rparr>)"

text \<open>\<^verbatim>\<open>stopLocationTracking\<close>, lines 101 to 110.\<close>

definition stopLocationTracking :: "system \<Rightarrow> system" where
  "stopLocationTracking s =
     (let s1 = (case watchId s of
                  Some w \<Rightarrow> (clearWatch w s)\<lparr>watchId := None\<rparr>
                | None \<Rightarrow> s)
      in case stationaryTimer s1 of
           Some h \<Rightarrow> (clearTimeout h s1)\<lparr>stationaryTimer := None\<rparr>
         | None \<Rightarrow> s1)"

text \<open>
  \<^verbatim>\<open>getCurrentLocation\<close>, lines 49 to 72. The argument is the answer of
  \<^verbatim>\<open>Geolocation.getCurrentPosition\<close>: a position, or \<open>None\<close> for its error
  callback. The first component is the value the promise resolves with.
\<close>

definition getCurrentLocation :: "location option \<Rightarrow> system \<Rightarrow> location option \<times> system" where
  "getCurrentLocation answer s =
     (case answer of
        Some position \<Rightarrow> (Some position, s\<lparr>lastLocation := Some position\<rparr>)
      | None \<Rightarrow> (None, s))"

subsection \<open>The host's event loop\<close>

text \<open>
  What can happen to the service: the application calls one of its three operations,
  the location source delivers a position, or time passes. Every input carries the
  time at which it happens.
\<close>

datatype input =
  Start
| Stop
| Position location
| CurrentLocation "location option"
| Wait

text \<open>The host runs the closures of the given timeouts, each removed from the pending ones.\<close>

fun run_due :: "timeout list \<Rightarrow> system \<Rightarrow> callback list \<times> system" where
  "run_due [] s = ([], s)"
| "run_due (t # ts) s =
     (case stationaryTimer_callback (captured t) (clearTimeout (handle t) s) of
        (a, s1) \<Rightarrow> (case run_due ts s1 of (b, s2) \<Rightarrow> (a @ b, s2)))"

definition run_timeouts :: "nat \<Rightarrow> system \<Rightarrow> callback list \<times> system" where
  "run_timeouts now s = run_due (filter (\<lambda>t. due t \<le> now) (timeouts s)) s"

text \<open>A position is given to the callback of every subscription that is active.\<close>

fun deliver :: "nat \<Rightarrow> location \<Rightarrow> nat list \<Rightarrow> system \<Rightarrow> callback list \<times> system" where
  "deliver now l [] s = ([], s)"
| "deliver now l (w # ws) s =
     (case watchPosition_callback now l s of
        (a, s1) \<Rightarrow> (case deliver now l ws s1 of (b, s2) \<Rightarrow> (a @ b, s2)))"

fun handle_input :: "nat \<Rightarrow> input \<Rightarrow> system \<Rightarrow> callback list \<times> system" where
  "handle_input now Start s = ([], startLocationTracking s)"
| "handle_input now Stop s = ([], stopLocationTracking s)"
| "handle_input now (Position l) s = deliver now l (watches s) s"
| "handle_input now (CurrentLocation answer) s = ([], snd (getCurrentLocation answer s))"
| "handle_input now Wait s = ([], s)"

text \<open>At time \<open>now\<close> the timeouts that are due run first, then the input is handled.\<close>

definition step :: "nat \<Rightarrow> input \<Rightarrow> system \<Rightarrow> callback list \<times> system" where
  "step now i s =
     (case run_timeouts now s of
        (a, s1) \<Rightarrow> (case handle_input now i s1 of (b, s2) \<Rightarrow> (a @ b, s2)))"

fun run :: "(nat \<times> input) list \<Rightarrow> system \<Rightarrow> callback list \<times> system" where
  "run [] s = ([], s)"
| "run ((now, i) # tr) s =
     (case step now i s of
        (a, s1) \<Rightarrow> (case run tr s1 of (b, s2) \<Rightarrow> (a @ b, s2)))"

section \<open>Invariants of the service in its host\<close>

text \<open>
  The host holds exactly the timeout whose handle the field \<^verbatim>\<open>stationaryTimer\<close>
  records, and no other.
\<close>

definition timers_tracked :: "system \<Rightarrow> bool" where
  "timers_tracked s \<longleftrightarrow>
     map handle (timeouts s) = (case stationaryTimer s of None \<Rightarrow> [] | Some h \<Rightarrow> [h])"

text \<open>
  In addition the host holds exactly the subscription that \<^verbatim>\<open>watchId\<close> records,
  and a timeout is pending only while a subscription is active.
\<close>

definition consistent :: "system \<Rightarrow> bool" where
  "consistent s \<longleftrightarrow>
     timers_tracked s
     \<and> watches s = (case watchId s of None \<Rightarrow> [] | Some w \<Rightarrow> [w])
     \<and> (watchId s = None \<longrightarrow> stationaryTimer s = None)"

text \<open>No confirm-timer is pending, neither in the service nor in the host.\<close>

definition no_timer :: "system \<Rightarrow> bool" where
  "no_timer s \<longleftrightarrow> timeouts s = [] \<and> stationaryTimer s = None"

text \<open>The inputs by which the location source reaches the service.\<close>

fun is_position :: "input \<Rightarrow> bool" where
  "is_position (Position l) = True"
| "is_position i = False"

text \<open>Tracking is off and the host has nothing left to call back.\<close>

definition quiet :: "system \<Rightarrow> bool" where
  "quiet s \<longleftrightarrow>
     watches s = [] \<and> timeouts s = [] \<and> watchId s = None \<and> stationaryTimer s = None"

text \<open>
  The application starts tracking only while no subscription is recorded, as the
  toggle of \<^verbatim>\<open>MapScreen.tsx\<close> does. (A second \<^verbatim>\<open>startLocationTracking\<close>
  overwrites \<^verbatim>\<open>watchId\<close> and leaves the first subscription active in the host.)
\<close>

fun no_double_start :: "(nat \<times> input) list \<Rightarrow> system \<Rightarrow> bool" where
  "no_double_start [] s = True"
| "no_double_start ((now, i) # tr) s =
     ((i = Start \<longrightarrow> watchId s = None) \<and> no_double_start tr (snd (step now i s)))"

section \<open>Concrete positions and sessions\<close>

text \<open>
  Five positions on one meridian in Hamburg. \<open>spot\<close> is the city centre used by the
  specification's scenario; \<open>near\<close>, \<open>mid\<close>, \<open>far\<close> and \<open>away\<close> lie about
  4 m, 33 m, 67 m and 100 m north of it.
\<close>

definition spot :: location where
  "spot = \<lparr>latitude = 53.5511, longitude = 9.9937\<rparr>"

definition near :: location where
  "near = \<lparr>latitude = 53.55114, longitude = 9.9937\<rparr>"

definition mid :: location where
  "mid = \<lparr>latitude = 53.5514, longitude = 9.9937\<rparr>"

definition far :: location where
  "far = \<lparr>latitude = 53.5517, longitude = 9.9937\<rparr>"

definition away :: location where
  "away = \<lparr>latitude = 53.5520, longitude = 9.9937\<rparr>"

text \<open>
  Tracking starts, the first sample arrives at 0 s and a second one at the same place
  at 5 s: the confirm-timer is pending, due at 35 s.
\<close>

definition pending_trace :: "(nat \<times> input) list" where
  "pending_trace = [(0, Start), (0, Position spot), (5000, Position spot)]"

definition pending_at :: "location \<Rightarrow> system" where
  "pending_at l =
     \<lparr>watchId = Some 1, lastLocation = Some l, isParked = False, stationaryTimer = Some 2,
      timeouts = [\<lparr>handle = 2, due = 35000, captured = l\<rparr>], watches = [1], next_id = 3\<rparr>"

text \<open>The specification's scenario: a third sample at the same place at 35 s.\<close>

definition park_trace :: "(nat \<times> input) list" where
  "park_trace = pending_trace @ [(35000, Position spot)]"

definition parked_at :: "location \<Rightarrow> system" where
  "parked_at l =
     \<lparr>watchId = Some 1, lastLocation = Some l, isParked = True, stationaryTimer = None,
      timeouts = [], watches = [1], next_id = 3\<rparr>"

section \<open>Properties of the geodistance function\<close>

lemma calculateDistance_swap: "calculateDistance p q = calculateDistance q p"
proof -
  have 1: "(latitude p - latitude q) * pi / 180 / 2 = - ((latitude q - latitude p) * pi / 180 / 2)"
    by (simp add: field_simps)
  have 2: "(longitude p - longitude q) * pi / 180 / 2 = - ((longitude q - longitude p) * pi / 180 / 2)"
    by (simp add: field_simps)
  have 3: "cos (latitude q * pi / 180) * cos (latitude p * pi / 180)
             = cos (latitude p * pi / 180) * cos (latitude q * pi / 180)"
    by (rule mult.commute)
  show ?thesis
    unfolding calculateDistance_def Let_def 1 2 3 by simp
qed

lemma calculateDistance_same: "calculateDistance p p = 0"
  by (simp add: calculateDistance_def atan2_def)

lemma pi_ge_3: "3 \<le> pi"
proof -
  have "sin (pi / 6) \<le> pi / 6" by (rule sin_x_le_x) simp
  then show ?thesis by (simp add: sin_30)
qed

lemma atan2_sin_cos:
  assumes "0 \<le> x" "x < pi / 2"
  shows "atan2 (sqrt (sin x * sin x)) (sqrt (1 - sin x * sin x)) = x"
proof -
  have c: "0 < cos x" using assms by (intro cos_gt_zero_pi) auto
  have s: "0 \<le> sin x" using assms by (intro sin_ge_zero) auto
  have "1 - sin x * sin x = cos x * cos x"
    using cos_squared_eq [of x] by (simp add: power2_eq_square)
  then have "atan2 (sqrt (sin x * sin x)) (sqrt (1 - sin x * sin x)) = arctan (sin x / cos x)"
    using c s by (simp add: atan2_def)
  also have "\<dots> = arctan (tan x)" by (simp add: tan_def)
  also have "\<dots> = x" using assms by (intro arctan_tan) auto
  finally show ?thesis .
qed

text \<open>Along a meridian the distance is the arc: the radius times the angle in radians.\<close>

lemma calculateDistance_meridian:
  assumes "longitude p = longitude q" "latitude p \<le> latitude q" "latitude q - latitude p < 180"
  shows "calculateDistance p q = 6371000 * ((latitude q - latitude p) * pi / 180)"
proof -
  let ?x = "(latitude q - latitude p) * pi / 180 / 2"
  have "0 \<le> ?x" using assms by simp
  moreover have "?x < pi / 2"
  proof -
    have "(latitude q - latitude p) * pi < 180 * pi"
      using assms(3) by (intro mult_strict_right_mono) simp_all
    then show ?thesis by simp
  qed
  ultimately have e: "atan2 (sqrt (sin ?x * sin ?x)) (sqrt (1 - sin ?x * sin ?x)) = ?x"
    by (rule atan2_sin_cos)
  have "calculateDistance p q
          = 6371000 * (2 * atan2 (sqrt (sin ?x * sin ?x)) (sqrt (1 - sin ?x * sin ?x)))"
    unfolding calculateDistance_def Let_def using assms(1) by simp
  also have "\<dots> = 6371000 * (2 * ?x)" unfolding e ..
  finally show ?thesis by simp
qed

lemma calculateDistance_meridian_bounds:
  assumes "longitude p = longitude q" "latitude p \<le> latitude q" "latitude q - latitude p < 180"
  shows "106183 * (latitude q - latitude p) \<le> calculateDistance p q"
    and "calculateDistance p q \<le> 141578 * (latitude q - latitude p)"
proof -
  let ?d = "latitude q - latitude p"
  have d: "0 \<le> ?d" using assms(2) by simp
  have e: "calculateDistance p q = (6371000 * ?d / 180) * pi"
    by (simp add: calculateDistance_meridian [OF assms])
  have "(6371000 * ?d / 180) * 3 \<le> (6371000 * ?d / 180) * pi"
    using d pi_ge_3 by (intro mult_left_mono) simp_all
  then show "106183 * ?d \<le> calculateDistance p q"
    using d unfolding e by simp
  have "(6371000 * ?d / 180) * pi \<le> (6371000 * ?d / 180) * 4"
    using d pi_less_4 by (intro mult_left_mono) simp_all
  then show "calculateDistance p q \<le> 141578 * ?d"
    using d unfolding e by simp
qed

text \<open>
  The number under the square roots lies between 0 and 1, so the distance lies between 0
  and half the circumference.
\<close>

lemma calculateDistance_haversine:
  "calculateDistance p q
     = 6371000 * (2 * atan2 (sqrt (haversine p q)) (sqrt (1 - haversine p q)))"
  by (simp add: calculateDistance_def haversine_def Let_def)

lemma cos_times_cos_half:
  "cos x * cos y = (cos ((x + y) / 2))\<^sup>2 - (sin ((y - x) / 2))\<^sup>2" for x y :: real
proof -
  have e1: "2 * ((x + y) / 2) = x + y" and e2: "2 * ((y - x) / 2) = y - x"
    by simp_all
  have 1: "cos (x + y) = 2 * (cos ((x + y) / 2))\<^sup>2 - 1"
    using cos_double_cos [of "(x + y) / 2"] unfolding e1 .
  have 2: "cos (y - x) = 1 - 2 * (sin ((y - x) / 2))\<^sup>2"
    using cos_double_sin [of "(y - x) / 2"] unfolding e2 .
  have "cos x * cos y = (cos (y - x) + cos (x + y)) / 2"
    by (simp add: cos_add cos_diff)
  then show ?thesis unfolding 1 2 by simp
qed

lemma mix_range:
  fixes u c v :: real
  assumes "0 \<le> u" "u \<le> 1" "0 \<le> c" "c \<le> 1" "0 \<le> v" "v \<le> 1"
  shows "0 \<le> u + (c - u) * v" and "u + (c - u) * v \<le> 1"
proof -
  have e: "u + (c - u) * v = u * (1 - v) + c * v" by (simp add: algebra_simps)
  have "0 \<le> u * (1 - v)" "0 \<le> c * v" using assms by simp_all
  then show "0 \<le> u + (c - u) * v" unfolding e by simp
  have "u * (1 - v) \<le> 1 * (1 - v)" using assms by (intro mult_right_mono) simp_all
  moreover have "c * v \<le> 1 * v" using assms by (intro mult_right_mono) simp_all
  ultimately show "u + (c - u) * v \<le> 1" unfolding e by simp
qed

lemma haversine_range: "0 \<le> haversine p q" "haversine p q \<le> 1"
proof -
  let ?x = "(latitude p * pi) / 180" and ?y = "(latitude q * pi) / 180"
  let ?u = "(sin ((?y - ?x) / 2))\<^sup>2" and ?c = "(cos ((?x + ?y) / 2))\<^sup>2"
  let ?v = "(sin (((longitude q - longitude p) * pi) / 180 / 2))\<^sup>2"
  have d: "((latitude q - latitude p) * pi) / 180 / 2 = (?y - ?x) / 2"
    by (simp add: field_simps)
  have h: "haversine p q = ?u + (?c - ?u) * ?v"
    unfolding haversine_def d cos_times_cos_half [of ?x ?y]
    by (simp add: power2_eq_square)
  have r: "0 \<le> ?u" "?u \<le> 1" "0 \<le> ?c" "?c \<le> 1" "0 \<le> ?v" "?v \<le> 1"
    by (simp_all add: abs_square_le_1)
  show "0 \<le> haversine p q" "haversine p q \<le> 1"
    unfolding h using mix_range [OF r] by simp_all
qed

lemma atan2_quadrant:
  assumes "0 \<le> y" "0 \<le> x"
  shows "0 \<le> atan2 y x" "atan2 y x \<le> pi / 2"
proof -
  have "0 \<le> arctan (y / x)" using assms by (simp add: zero_le_arctan_iff)
  moreover have "arctan (y / x) \<le> pi / 2" using arctan_ubound [of "y / x"] by simp
  ultimately show "0 \<le> atan2 y x" "atan2 y x \<le> pi / 2"
    using assms by (auto simp add: atan2_def)
qed

lemma calculateDistance_range:
  "0 \<le> calculateDistance p q" "calculateDistance p q \<le> 6371000 * pi"
proof -
  let ?t = "atan2 (sqrt (haversine p q)) (sqrt (1 - haversine p q))"
  have a: "0 \<le> sqrt (haversine p q)" "0 \<le> sqrt (1 - haversine p q)"
    using haversine_range [of p q] by simp_all
  have "0 \<le> ?t" "?t \<le> pi / 2"
    by (rule atan2_quadrant [OF a])+
  then show "0 \<le> calculateDistance p q" "calculateDistance p q \<le> 6371000 * pi"
    unfolding calculateDistance_haversine by linarith+
qed

section \<open>Properties of the floating-point geodistance function\<close>













lemma fadd_NaN_right [simp]: "fadd r x NaN = NaN"
  by (cases x) simp_all

lemma fmul_NaN_right [simp]: "fmul r x NaN = NaN"
  by (cases x) simp_all

lemma fsub_Fin [simp]: "fsub r (Fin x) (Fin y) = r (x - y)"
  by (simp add: fsub_def)








section \<open>The concrete distances\<close>

lemmas points = spot_def near_def mid_def far_def away_def

lemma spot_near: "calculateDistance spot near < 20"
  using calculateDistance_meridian_bounds(2) [of spot near] by (simp add: points)

lemma spot_mid: "20 \<le> calculateDistance spot mid" "calculateDistance spot mid \<le> 50"
  using calculateDistance_meridian_bounds [of spot mid] by (simp_all add: points)

lemma mid_far: "20 \<le> calculateDistance mid far" "calculateDistance mid far \<le> 50"
  using calculateDistance_meridian_bounds [of mid far] by (simp_all add: points)

lemma spot_far: "50 < calculateDistance spot far"
  using calculateDistance_meridian_bounds(1) [of spot far] by (simp add: points)

lemma spot_away: "50 < calculateDistance spot away"
  using calculateDistance_meridian_bounds(1) [of spot away] by (simp add: points)

lemma mid_away: "50 < calculateDistance mid away"
  using calculateDistance_meridian_bounds(1) [of mid away] by (simp add: points)

lemma near_away: "50 < calculateDistance near away"
  using calculateDistance_meridian_bounds(1) [of near away] by (simp add: points)

lemma points_differ: "mid \<noteq> spot" "near \<noteq> spot" "away \<noteq> spot"
  by (simp_all add: points)

section \<open>Properties of the feed operation\<close>

lemmas feed = watchPosition_callback_def detectParkingState_def setTimeout_def clearTimeout_def
  stationaryThreshold_def Let_def

lemma feed_fresh:
  "lastLocation s = None \<Longrightarrow>
   watchPosition_callback now l s = ([OnLocationUpdate l], s\<lparr>lastLocation := Some l\<rparr>)"
  by (simp add: feed)

lemma feed_lastLocation: "lastLocation (snd (watchPosition_callback now l s)) = Some l"
  by (simp add: feed split: option.splits prod.splits)

lemma feed_watch:
  "watchId (snd (watchPosition_callback now l s)) = watchId s"
  "watches (snd (watchPosition_callback now l s)) = watches s"
  by (simp_all add: feed split: option.splits prod.splits)

lemma feed_no_park: "OnParkingDetected x \<notin> set (fst (watchPosition_callback now l s))"
  by (simp add: feed split: option.splits prod.splits)

lemma feed_leaving_iff:
  assumes "isParked s" "lastLocation s = Some p"
  shows "OnLeavingDetected x \<in> set (fst (watchPosition_callback now l s))
           \<longleftrightarrow> x = p \<and> 50 < calculateDistance p l"
  using assms by (auto simp add: feed split: option.splits prod.splits)

lemma feed_leaving_source:
  assumes "OnLeavingDetected x \<in> set (fst (watchPosition_callback now l s))"
  shows "isParked s \<and> lastLocation s = Some x \<and> 50 < calculateDistance x l"
  using assms by (auto simp add: feed split: option.splits prod.splits if_splits)

lemma feed_parked_leave:
  assumes "isParked s" "lastLocation s = Some p" "50 < calculateDistance p l"
  shows "fst (watchPosition_callback now l s) = [OnLocationUpdate l, OnLeavingDetected p]"
    and "\<not> isParked (snd (watchPosition_callback now l s))"
  using assms by (auto simp add: feed split: option.splits prod.splits)

lemma feed_parked_stay:
  assumes "isParked s" "lastLocation s = Some p" "calculateDistance p l \<le> 50"
  shows "fst (watchPosition_callback now l s) = [OnLocationUpdate l]"
    and "isParked (snd (watchPosition_callback now l s))"
  using assms by (auto simp add: feed split: option.splits prod.splits)

lemma feed_schedules:
  assumes "lastLocation s = Some p" "calculateDistance p l < 20" "\<not> isParked s"
    "stationaryTimer s = None"
  shows "watchPosition_callback now l s =
           ([OnLocationUpdate l],
            s\<lparr>lastLocation := Some l, stationaryTimer := Some (next_id s),
              timeouts := timeouts s @ [\<lparr>handle = next_id s, due = now + 30000, captured = l\<rparr>],
              next_id := Suc (next_id s)\<rparr>)"
  using assms by (simp add: feed)

lemma feed_pending:
  assumes "stationaryTimer s = Some h"
  shows "set (timeouts (snd (watchPosition_callback now l s))) \<subseteq> set (timeouts s)"
    and "next_id (snd (watchPosition_callback now l s)) = next_id s"
  using assms by (auto simp add: feed split: option.splits prod.splits)

lemma run_timeouts_single:
  assumes "timeouts s = [\<lparr>handle = h, due = d, captured = c\<rparr>]" "d \<le> now"
  shows "run_timeouts now s =
           ([OnParkingDetected c], s\<lparr>isParked := True, stationaryTimer := None, timeouts := []\<rparr>)"
  using assms by (simp add: run_timeouts_def stationaryTimer_callback_def clearTimeout_def)

section \<open>Unfolding the event loop\<close>

lemma run_due_Cons:
  "fst (run_due (t # ts) s) =
     OnParkingDetected (captured t)
       # fst (run_due ts ((clearTimeout (handle t) s)\<lparr>isParked := True, stationaryTimer := None\<rparr>))"
  "snd (run_due (t # ts) s) =
     snd (run_due ts ((clearTimeout (handle t) s)\<lparr>isParked := True, stationaryTimer := None\<rparr>))"
  by (simp_all add: stationaryTimer_callback_def split: prod.splits)

lemma deliver_Cons:
  "fst (deliver now l (w # ws) s) =
     fst (watchPosition_callback now l s) @ fst (deliver now l ws (snd (watchPosition_callback now l s)))"
  "snd (deliver now l (w # ws) s) = snd (deliver now l ws (snd (watchPosition_callback now l s)))"
  by (simp_all split: prod.splits)

lemma step_parts:
  "fst (step now i s) =
     fst (run_timeouts now s) @ fst (handle_input now i (snd (run_timeouts now s)))"
  "snd (step now i s) = snd (handle_input now i (snd (run_timeouts now s)))"
  by (simp_all add: step_def split: prod.splits)

lemma run_Cons:
  "fst (run ((now, i) # tr) s) = fst (step now i s) @ fst (run tr (snd (step now i s)))"
  "snd (run ((now, i) # tr) s) = snd (run tr (snd (step now i s)))"
  by (simp_all split: prod.splits)

lemma run_append:
  "fst (run (tr @ tr') s) = fst (run tr s) @ fst (run tr' (snd (run tr s)))"
  "snd (run (tr @ tr') s) = snd (run tr' (snd (run tr s)))"
proof (induction tr arbitrary: s)
  case Nil
  { case 1 show ?case by simp }
  { case 2 show ?case by simp }
next
  case (Cons e tr)
  obtain now i where e: "e = (now, i)" by (cases e)
  { case 1 show ?case unfolding e append_Cons run_Cons Cons.IH by simp }
  { case 2 show ?case unfolding e append_Cons run_Cons Cons.IH by simp }
qed

lemma run_due_fields:
  "watchId (snd (run_due ts s)) = watchId s"
  "watches (snd (run_due ts s)) = watches s"
  "lastLocation (snd (run_due ts s)) = lastLocation s"
  by (induction ts arbitrary: s)
    (simp_all add: run_due_Cons clearTimeout_def del: run_due.simps(2))

lemma run_due_timer:
  "stationaryTimer (snd (run_due ts s)) = (if ts = [] then stationaryTimer s else None)"
  by (induction ts arbitrary: s)
    (simp_all add: run_due_Cons clearTimeout_def del: run_due.simps(2))

lemma deliver_fields:
  "watchId (snd (deliver now l ws s)) = watchId s"
  "watches (snd (deliver now l ws s)) = watches s"
  by (induction ws arbitrary: s) (simp_all add: deliver_Cons feed_watch del: deliver.simps(2))

section \<open>The invariants hold in every session\<close>

lemma feed_timers_tracked:
  "timers_tracked s \<Longrightarrow> timers_tracked (snd (watchPosition_callback now l s))"
  by (auto simp add: feed timers_tracked_def split: option.splits prod.splits)

lemma deliver_timers_tracked:
  "timers_tracked s \<Longrightarrow> timers_tracked (snd (deliver now l ws s))"
  by (induction ws arbitrary: s)
    (simp_all add: deliver_Cons feed_timers_tracked del: deliver.simps(2))

lemma run_timeouts_timers_tracked:
  assumes "timers_tracked s"
  shows "timers_tracked (snd (run_timeouts now s))"
proof (cases "timeouts s")
  case Nil
  then show ?thesis using assms by (simp add: run_timeouts_def)
next
  case (Cons t ts)
  with assms have "ts = []" "stationaryTimer s = Some (handle t)"
    by (auto simp add: timers_tracked_def split: option.splits)
  with Cons show ?thesis
    by (simp add: run_timeouts_def stationaryTimer_callback_def clearTimeout_def
        timers_tracked_def)
qed

lemma handle_input_timers_tracked:
  assumes "timers_tracked s"
  shows "timers_tracked (snd (handle_input now i s))"
proof (cases i)
  case (Position l)
  then show ?thesis using assms by (simp add: deliver_timers_tracked)
next
  case Start
  then show ?thesis
    using assms by (simp add: timers_tracked_def startLocationTracking_def watchPosition_def)
next
  case Stop
  then show ?thesis
    using assms
    by (auto simp add: timers_tracked_def stopLocationTracking_def clearWatch_def
        clearTimeout_def Let_def split: option.splits)
next
  case (CurrentLocation answer)
  then show ?thesis
    using assms by (simp add: timers_tracked_def getCurrentLocation_def split: option.splits)
next
  case Wait
  then show ?thesis using assms by simp
qed

lemma step_timers_tracked: "timers_tracked s \<Longrightarrow> timers_tracked (snd (step now i s))"
  by (simp add: step_parts handle_input_timers_tracked run_timeouts_timers_tracked)

lemma run_timers_tracked: "timers_tracked s \<Longrightarrow> timers_tracked (snd (run tr s))"
proof (induction tr arbitrary: s)
  case Nil
  then show ?case by simp
next
  case (Cons e tr)
  obtain now i where e: "e = (now, i)" by (cases e)
  show ?case
    unfolding e run_Cons using Cons by (simp add: step_timers_tracked)
qed

lemma timers_tracked_new: "timers_tracked new_LocationService"
  by (simp add: timers_tracked_def new_LocationService_def)

lemma timers_tracked_length:
  assumes "timers_tracked s"
  shows "length (timeouts s) \<le> 1"
proof -
  from assms have "length (map handle (timeouts s)) \<le> 1"
    by (simp add: timers_tracked_def split: option.splits)
  then show ?thesis by simp
qed

lemma consistent_step:
  assumes "consistent s" "i = Start \<longrightarrow> watchId s = None"
  shows "consistent (snd (step now i s))"
proof -
  let ?s1 = "snd (run_timeouts now s)"
  have t: "timers_tracked (snd (step now i s))"
    using assms(1) by (simp add: consistent_def step_timers_tracked)
  have w1: "watches ?s1 = (case watchId ?s1 of None \<Rightarrow> [] | Some w \<Rightarrow> [w])"
    and i1: "watchId ?s1 = watchId s"
    and n1: "watchId ?s1 = None \<longrightarrow> stationaryTimer ?s1 = None"
    using assms(1) by (simp_all add: consistent_def run_timeouts_def run_due_fields run_due_timer)
  have "watches (snd (handle_input now i ?s1))
          = (case watchId (snd (handle_input now i ?s1)) of None \<Rightarrow> [] | Some w \<Rightarrow> [w])
        \<and> (watchId (snd (handle_input now i ?s1)) = None
             \<longrightarrow> stationaryTimer (snd (handle_input now i ?s1)) = None)"
  proof (cases i)
    case Start
    with assms(2) i1 w1 show ?thesis
      by (simp add: startLocationTracking_def watchPosition_def)
  next
    case Stop
    with w1 show ?thesis
      by (auto simp add: stopLocationTracking_def clearWatch_def clearTimeout_def Let_def
          split: option.splits)
  next
    case (Position l)
    show ?thesis
    proof (cases "watchId ?s1")
      case None
      with w1 n1 Position show ?thesis by simp
    next
      case (Some w)
      have "watchId (snd (handle_input now i ?s1)) = watchId ?s1"
        "watches (snd (handle_input now i ?s1)) = watches ?s1"
        unfolding Position by (simp_all add: deliver_fields)
      with w1 Some show ?thesis by simp
    qed
  next
    case (CurrentLocation answer)
    with w1 n1 show ?thesis by (simp add: getCurrentLocation_def split: option.splits)
  next
    case Wait
    with w1 n1 show ?thesis by simp
  qed
  with t show ?thesis by (simp add: consistent_def step_parts)
qed

lemma consistent_run:
  "consistent s \<Longrightarrow> no_double_start tr s \<Longrightarrow> consistent (snd (run tr s))"
proof (induction tr arbitrary: s)
  case Nil
  then show ?case by simp
next
  case (Cons e tr)
  obtain now i where e: "e = (now, i)" by (cases e)
  from Cons.prems have "consistent (snd (step now i s))" "no_double_start tr (snd (step now i s))"
    unfolding e by (simp_all add: consistent_step)
  then show ?case unfolding e run_Cons by (rule Cons.IH)
qed

lemma consistent_new: "consistent new_LocationService"
  by (simp add: consistent_def timers_tracked_def new_LocationService_def)

text \<open>Started twice and stopped once, the service is still subscribed.\<close>

lemma double_start_keeps_subscription:
  "watches (stopLocationTracking (startLocationTracking (startLocationTracking new_LocationService)))
     = [1]
   \<and> watchId (stopLocationTracking (startLocationTracking (startLocationTracking new_LocationService)))
     = None"
  by (simp add: stopLocationTracking_def startLocationTracking_def watchPosition_def
      clearWatch_def new_LocationService_def)

lemma start_fields:
  "isParked (startLocationTracking s) = isParked s"
  "lastLocation (startLocationTracking s) = lastLocation s"
  "stationaryTimer (startLocationTracking s) = stationaryTimer s"
  by (simp_all add: startLocationTracking_def watchPosition_def)

section \<open>Stopping\<close>

lemma quiet_stop: "consistent s \<Longrightarrow> quiet (stopLocationTracking s)"
  by (auto simp add: consistent_def timers_tracked_def quiet_def stopLocationTracking_def
      clearWatch_def clearTimeout_def Let_def split: option.splits)

lemma quiet_step:
  assumes "quiet s" "i \<noteq> Start"
  shows "fst (step now i s) = []" and "quiet (snd (step now i s))"
  using assms
  by (cases i; simp add: quiet_def step_def run_timeouts_def stopLocationTracking_def
      getCurrentLocation_def split: option.splits)+

lemma quiet_run:
  "quiet s \<Longrightarrow> Start \<notin> snd ` set tr \<Longrightarrow> fst (run tr s) = []"
proof (induction tr arbitrary: s)
  case Nil
  then show ?case by simp
next
  case (Cons e tr)
  obtain now i where e: "e = (now, i)" by (cases e)
  from Cons.prems have i: "i \<noteq> Start" and tr: "Start \<notin> snd ` set tr"
    unfolding e by auto
  from quiet_step [OF Cons.prems(1) i] Cons.IH [OF _ tr] show ?case
    unfolding e run_Cons by simp
qed

lemma stop_idempotent:
  "stopLocationTracking (stopLocationTracking s) = stopLocationTracking s"
  by (simp add: stopLocationTracking_def clearWatch_def clearTimeout_def Let_def
      split: option.splits)

lemma stop_fields:
  "watchId (stopLocationTracking s) = None"
  "stationaryTimer (stopLocationTracking s) = None"
  "isParked (stopLocationTracking s) = isParked s"
  "lastLocation (stopLocationTracking s) = lastLocation s"
  by (simp_all add: stopLocationTracking_def clearWatch_def clearTimeout_def Let_def
      split: option.splits)

lemma stop_timeouts: "timers_tracked s \<Longrightarrow> timeouts (stopLocationTracking s) = []"
  by (auto simp add: timers_tracked_def stopLocationTracking_def clearWatch_def
      clearTimeout_def Let_def split: option.splits)

lemma no_timer_stop: "timers_tracked s \<Longrightarrow> no_timer (stopLocationTracking s)"
  by (auto simp add: no_timer_def timers_tracked_def stopLocationTracking_def clearWatch_def
      clearTimeout_def Let_def split: option.splits)

lemma no_timer_step:
  assumes "no_timer s" "\<not> is_position i"
  shows "fst (step now i s) = []" and "no_timer (snd (step now i s))"
  using assms
  by (cases i; simp add: no_timer_def step_def run_timeouts_def stopLocationTracking_def
      startLocationTracking_def watchPosition_def clearWatch_def getCurrentLocation_def
      Let_def split: option.splits)+

lemma no_timer_run:
  "no_timer s \<Longrightarrow> list_all (\<lambda>e. \<not> is_position (snd e)) tr \<Longrightarrow> fst (run tr s) = []"
proof (induction tr arbitrary: s)
  case Nil
  then show ?case by simp
next
  case (Cons e tr)
  obtain now i where e: "e = (now, i)" by (cases e)
  from Cons.prems have i: "\<not> is_position i" and tr: "list_all (\<lambda>e. \<not> is_position (snd e)) tr"
    unfolding e by auto
  from no_timer_step [OF Cons.prems(1) i] Cons.IH [OF _ tr] show ?case
    unfolding e run_Cons by simp
qed

section \<open>The concrete sessions\<close>

lemmas machine =
  step_def run_timeouts_def watchPosition_callback_def detectParkingState_def
  setTimeout_def clearTimeout_def watchPosition_def clearWatch_def startLocationTracking_def
  stopLocationTracking_def stationaryTimer_callback_def stationaryThreshold_def
  getCurrentLocation_def Let_def

lemma run_pending:
  "run pending_trace new_LocationService
     = ([OnLocationUpdate spot, OnLocationUpdate spot], pending_at spot)"
  by (simp add: pending_trace_def machine new_LocationService_def pending_at_def
      calculateDistance_same)

lemma step_pending_confirm:
  "step 35000 (Position l) (pending_at spot)
     = (OnParkingDetected spot # fst (watchPosition_callback 35000 l (parked_at spot)),
        snd (watchPosition_callback 35000 l (parked_at spot)))"
  by (simp add: step_def run_timeouts_def stationaryTimer_callback_def clearTimeout_def
      pending_at_def parked_at_def split: prod.splits)

lemma run_park:
  "run park_trace new_LocationService
     = ([OnLocationUpdate spot, OnLocationUpdate spot, OnParkingDetected spot,
         OnLocationUpdate spot], parked_at spot)"
proof -
  have "watchPosition_callback 35000 spot (parked_at spot)
          = ([OnLocationUpdate spot], parked_at spot)"
    by (simp add: feed parked_at_def calculateDistance_same)
  then have "run [(35000, Position spot)] (pending_at spot)
               = ([OnParkingDetected spot, OnLocationUpdate spot], parked_at spot)"
    by (simp add: step_pending_confirm)
  then show ?thesis
    using run_append [of pending_trace "[(35000, Position spot)]" new_LocationService]
    by (simp add: park_trace_def run_pending prod_eq_iff)
qed

lemma parked_at_fields:
  "isParked (parked_at l)" "lastLocation (parked_at l) = Some l"
  "stationaryTimer (parked_at l) = None" "timeouts (parked_at l) = []"
  by (simp_all add: parked_at_def)

lemma feed_parked_mid:
  "watchPosition_callback now mid (parked_at spot) = ([OnLocationUpdate mid], parked_at mid)"
  using spot_mid by (simp add: feed parked_at_def)

lemma run_single: "run [(now, i)] s = step now i s"
  by (simp split: prod.splits)

lemma step_parked_position:
  "step now (Position l) (parked_at p) = watchPosition_callback now l (parked_at p)"
  by (simp add: step_def run_timeouts_def parked_at_def split: prod.splits)

lemma feed_parked_away:
  assumes "50 < calculateDistance p l"
  shows "watchPosition_callback now l (parked_at p)
           = ([OnLocationUpdate l, OnLeavingDetected p],
              (parked_at l)\<lparr>isParked := False\<rparr>)"
  using assms by (simp add: feed parked_at_def)

section \<open>The claims\<close>

subsection \<open>C1: when a parked machine reports leaving\<close>

text \<open>
  C1, as the code has it. For every machine that is parked and holds a last-seen
  coordinate, feeding a sample calls \<^verbatim>\<open>onLeavingDetected\<close> if and only if the distance
  from that last-seen coordinate to the new sample exceeds 50 m. The last-seen coordinate
  is the immediately prior sample (or on-demand fix): the code keeps no separate
  coordinate of the place where parking was confirmed.
\<close>

theorem C1_leaving_iff_far_from_last_sample:
  assumes "isParked s" and "lastLocation s = Some p"
  shows "(\<exists>x. OnLeavingDetected x \<in> set (fst (watchPosition_callback now l s)))
           \<longleftrightarrow> 50 < calculateDistance p l"
  using assms by (simp add: feed_leaving_iff)

text \<open>The theorem at the parked machine of the scenario: leaving for \<open>away\<close>, not for \<open>mid\<close>.\<close>

theorem C1_leaving_iff_far_from_last_sample_witness:
  "isParked (parked_at spot) \<and> lastLocation (parked_at spot) = Some spot
   \<and> (\<exists>x. OnLeavingDetected x \<in> set (fst (watchPosition_callback 40000 away (parked_at spot))))
   \<and> \<not> (\<exists>x. OnLeavingDetected x \<in> set (fst (watchPosition_callback 40000 mid (parked_at spot))))"
  using C1_leaving_iff_far_from_last_sample [of "parked_at spot" spot 40000 away]
    C1_leaving_iff_far_from_last_sample [of "parked_at spot" spot 40000 mid]
    spot_away spot_mid(2)
  by (simp add: parked_at_fields)

text \<open>
  The claim as stated fails. Parking is confirmed at \<open>spot\<close>; a sample at \<open>mid\<close>
  leaves the machine parked; the next sample, \<open>far\<close>, is more than 50 m from \<open>spot\<close>
  and no \<^verbatim>\<open>onLeavingDetected\<close> call is made, because \<open>far\<close> is measured from \<open>mid\<close>.
\<close>

theorem C1_anchor_counterexample:
  "run (park_trace @ [(40000, Position mid)]) new_LocationService
     = ([OnLocationUpdate spot, OnLocationUpdate spot, OnParkingDetected spot,
         OnLocationUpdate spot, OnLocationUpdate mid], parked_at mid)
   \<and> isParked (parked_at mid)
   \<and> 50 < calculateDistance spot far
   \<and> fst (watchPosition_callback 45000 far (parked_at mid)) = [OnLocationUpdate far]"
proof -
  have "run (park_trace @ [(40000, Position mid)]) new_LocationService
          = ([OnLocationUpdate spot, OnLocationUpdate spot, OnParkingDetected spot,
              OnLocationUpdate spot, OnLocationUpdate mid], parked_at mid)"
    using run_append [of park_trace "[(40000, Position mid)]" new_LocationService]
    by (simp add: run_park run_single step_parked_position feed_parked_mid prod_eq_iff)
  moreover have "fst (watchPosition_callback 45000 far (parked_at mid)) = [OnLocationUpdate far]"
    using mid_far(2) by (intro feed_parked_stay) (simp_all add: parked_at_fields)
  ultimately show ?thesis
    using spot_far by (simp add: parked_at_fields)
qed

subsection \<open>C2: what a leaving event carries\<close>

text \<open>
  C2, as the code has it. Every \<^verbatim>\<open>onLeavingDetected\<close> call made by a feed carries the
  last-seen coordinate, that is the sample before the one being fed, and never the new
  sample. In particular, feeding a parked machine a sample more than 50 m (for example
  100 m) from the last-seen coordinate makes exactly one such call, carrying that
  last-seen coordinate.
\<close>

theorem C2_leaving_carries_last_sample:
  "(OnLeavingDetected x \<in> set (fst (watchPosition_callback now l s))
      \<longrightarrow> lastLocation s = Some x \<and> x \<noteq> l)
   \<and> (isParked s \<and> lastLocation s = Some p \<and> 50 < calculateDistance p l
      \<longrightarrow> fst (watchPosition_callback now l s) = [OnLocationUpdate l, OnLeavingDetected p])"
proof (intro conjI impI)
  assume "OnLeavingDetected x \<in> set (fst (watchPosition_callback now l s))"
  then have *: "lastLocation s = Some x" "50 < calculateDistance x l"
    using feed_leaving_source by blast+
  show "lastLocation s = Some x" by (rule *)
  show "x \<noteq> l" using *(2) calculateDistance_same [of x] by auto
next
  assume "isParked s \<and> lastLocation s = Some p \<and> 50 < calculateDistance p l"
  then show "fst (watchPosition_callback now l s) = [OnLocationUpdate l, OnLeavingDetected p]"
    by (simp add: feed_parked_leave)
qed

text \<open>
  The specification's scenario: parked at \<open>spot\<close> with \<open>spot\<close> the last sample, the
  sample \<open>away\<close> at 40 s is answered by one leaving event carrying \<open>spot\<close>.
\<close>

theorem C2_leaving_carries_last_sample_witness:
  "isParked (parked_at spot) \<and> lastLocation (parked_at spot) = Some spot
   \<and> 50 < calculateDistance spot away
   \<and> OnLeavingDetected spot \<in> set (fst (watchPosition_callback 40000 away (parked_at spot)))
   \<and> spot \<noteq> away
   \<and> fst (watchPosition_callback 40000 away (parked_at spot))
       = [OnLocationUpdate away, OnLeavingDetected spot]"
  using C2_leaving_carries_last_sample [of spot 40000 away "parked_at spot" spot] spot_away
  by (simp add: parked_at_fields)

text \<open>
  The claim as stated fails, in both of its parts. In the first session parking is
  confirmed at \<open>spot\<close>; after a sample at \<open>mid\<close>, the sample \<open>away\<close> is
  answered by a leaving event that carries \<open>mid\<close>. In the second session the sample
  \<open>near\<close> arrives while the timer scheduled at \<open>spot\<close> is pending; parking is
  confirmed with \<open>spot\<close>, and the sample \<open>away\<close> that comes immediately after the
  confirmation is answered by a leaving event that carries \<open>near\<close>. Neither event
  carries the coordinate \<open>spot\<close> that \<^verbatim>\<open>onParkingDetected\<close> reported.
\<close>

theorem C2_payload_counterexample:
  "fst (run (park_trace @ [(40000, Position mid), (45000, Position away)]) new_LocationService)
     = [OnLocationUpdate spot, OnLocationUpdate spot, OnParkingDetected spot,
        OnLocationUpdate spot, OnLocationUpdate mid, OnLocationUpdate away,
        OnLeavingDetected mid]
   \<and> mid \<noteq> spot
   \<and> fst (run (pending_trace @ [(10000, Position near), (35000, Wait), (40000, Position away)])
           new_LocationService)
     = [OnLocationUpdate spot, OnLocationUpdate spot, OnLocationUpdate near,
        OnParkingDetected spot, OnLocationUpdate away, OnLeavingDetected near]
   \<and> near \<noteq> spot"
proof -
  have 1: "run [(40000, Position mid), (45000, Position away)] (parked_at spot)
          = ([OnLocationUpdate mid, OnLocationUpdate away, OnLeavingDetected mid],
             (parked_at away)\<lparr>isParked := False\<rparr>)"
    by (simp add: step_parked_position feed_parked_mid feed_parked_away [OF mid_away])
  have 2: "run [(10000, Position near), (35000, Wait), (40000, Position away)] (pending_at spot)
          = ([OnLocationUpdate near, OnParkingDetected spot, OnLocationUpdate away,
              OnLeavingDetected near],
             (parked_at away)\<lparr>isParked := False\<rparr>)"
    using spot_near near_away by (simp add: machine pending_at_def parked_at_def)
  show ?thesis
    unfolding run_append run_park run_pending fst_conv snd_conv 1 2
    by (simp add: points_differ)
qed

subsection \<open>C3: the stored coordinate while parked\<close>

text \<open>
  C3, as the code has it. While the machine is parked, a feed whose sample is at most
  50 m from the last-seen coordinate (for example 30 m away) makes no parking or leaving
  call and leaves the machine parked. The stored coordinate is not pinned: every feed,
  parked or not, event or not, replaces it by the new sample.
\<close>

theorem C3_feed_replaces_stored_coordinate:
  "lastLocation (snd (watchPosition_callback now l s)) = Some l
   \<and> (isParked s \<and> lastLocation s = Some p \<and> calculateDistance p l \<le> 50
      \<longrightarrow> fst (watchPosition_callback now l s) = [OnLocationUpdate l]
          \<and> isParked (snd (watchPosition_callback now l s)))"
  by (simp add: feed_lastLocation feed_parked_stay)

theorem C3_feed_replaces_stored_coordinate_witness:
  "isParked (parked_at spot) \<and> lastLocation (parked_at spot) = Some spot
   \<and> calculateDistance spot mid \<le> 50
   \<and> lastLocation (snd (watchPosition_callback 40000 mid (parked_at spot))) = Some mid
   \<and> fst (watchPosition_callback 40000 mid (parked_at spot)) = [OnLocationUpdate mid]
   \<and> isParked (snd (watchPosition_callback 40000 mid (parked_at spot)))"
  using C3_feed_replaces_stored_coordinate [of 40000 mid "parked_at spot" spot] spot_mid(2)
  by (simp add: parked_at_fields)

text \<open>
  The claim as stated fails. The machine is parked with \<open>spot\<close> stored; the sample
  \<open>mid\<close>, between the two radii, makes no leaving call, and afterwards the stored
  coordinate is \<open>mid\<close>.
\<close>

theorem C3_pinned_counterexample:
  "run park_trace new_LocationService
     = ([OnLocationUpdate spot, OnLocationUpdate spot, OnParkingDetected spot,
         OnLocationUpdate spot], parked_at spot)
   \<and> lastLocation (parked_at spot) = Some spot
   \<and> 20 \<le> calculateDistance spot mid \<and> calculateDistance spot mid \<le> 50
   \<and> watchPosition_callback 40000 mid (parked_at spot) = ([OnLocationUpdate mid], parked_at mid)
   \<and> isParked (parked_at mid)
   \<and> lastLocation (parked_at mid) = Some mid
   \<and> mid \<noteq> spot"
  using spot_mid by (simp add: run_park feed_parked_mid parked_at_fields points_differ)

subsection \<open>C4: confirming a park\<close>

text \<open>
  C4, as the code has it. A confirm-timer is scheduled by a feed whose sample is less
  than 20 m from the last-seen coordinate while the machine is not parked and no timer
  is pending; it is due 30 s after that feed and its closure captures that sample. When
  the timer is due, the host runs the closure: the machine becomes parked, the timer is
  cleared, and \<^verbatim>\<open>onParkingDetected\<close> is called with the captured sample, the one that
  scheduled the timer and not a sample that arrived later. The feed operation itself
  never calls \<^verbatim>\<open>onParkingDetected\<close>.
\<close>

theorem C4_timer_confirms_park:
  "(stationaryTimer s = Some h \<and> timeouts s = [\<lparr>handle = h, due = d, captured = c\<rparr>] \<and> d \<le> now
      \<longrightarrow> run_timeouts now s
            = ([OnParkingDetected c],
               s\<lparr>isParked := True, stationaryTimer := None, timeouts := []\<rparr>))
   \<and> (lastLocation s = Some p \<and> calculateDistance p l < 20 \<and> \<not> isParked s
       \<and> stationaryTimer s = None
      \<longrightarrow> timeouts (snd (watchPosition_callback now l s))
            = timeouts s @ [\<lparr>handle = next_id s, due = now + 30000, captured = l\<rparr>])
   \<and> OnParkingDetected x \<notin> set (fst (watchPosition_callback now l s))"
  by (simp add: run_timeouts_single feed_schedules feed_no_park)

theorem C4_timer_confirms_park_witness:
  "stationaryTimer (pending_at spot) = Some 2
   \<and> timeouts (pending_at spot) = [\<lparr>handle = 2, due = 35000, captured = spot\<rparr>]
   \<and> run_timeouts 35000 (pending_at spot) = ([OnParkingDetected spot], parked_at spot)
   \<and> lastLocation (startLocationTracking new_LocationService\<lparr>lastLocation := Some spot\<rparr>)
       = Some spot
   \<and> calculateDistance spot near < 20
   \<and> timeouts (snd (watchPosition_callback 35000 near
                      (startLocationTracking new_LocationService\<lparr>lastLocation := Some spot\<rparr>)))
       = [\<lparr>handle = 2, due = 65000, captured = near\<rparr>]"
  using C4_timer_confirms_park [of "pending_at spot" 2 35000 spot 35000 spot near]
    C4_timer_confirms_park
      [of "startLocationTracking new_LocationService\<lparr>lastLocation := Some spot\<rparr>"
        0 0 spot 35000 spot near]
    spot_near
  by (simp add: pending_at_def parked_at_def startLocationTracking_def watchPosition_def
      new_LocationService_def)

text \<open>
  The claim as stated fails. The timer scheduled by the sample \<open>spot\<close> at 5 s is pending
  and due at 35 s, when the sample \<open>near\<close> arrives, less than 20 m away. The feed
  operation by itself makes no \<^verbatim>\<open>onParkingDetected\<close> call and leaves the machine not
  parked with the timer pending; with the host running the due timer first, the call is
  made by the timer and carries \<open>spot\<close>, not the newly arrived \<open>near\<close>.
\<close>

theorem C4_payload_counterexample:
  "run pending_trace new_LocationService
     = ([OnLocationUpdate spot, OnLocationUpdate spot], pending_at spot)
   \<and> stationaryTimer (pending_at spot) = Some 2
   \<and> timeouts (pending_at spot) = [\<lparr>handle = 2, due = 5000 + 30000, captured = spot\<rparr>]
   \<and> calculateDistance spot near < 20
   \<and> watchPosition_callback 35000 near (pending_at spot)
       = ([OnLocationUpdate near], pending_at spot\<lparr>lastLocation := Some near\<rparr>)
   \<and> fst (step 35000 (Position near) (pending_at spot))
       = [OnParkingDetected spot, OnLocationUpdate near]
   \<and> near \<noteq> spot"
proof -
  have a: "stationaryTimer (pending_at spot) = Some 2"
    "timeouts (pending_at spot) = [\<lparr>handle = 2, due = 5000 + 30000, captured = spot\<rparr>]"
    by (simp_all add: pending_at_def)
  have b: "watchPosition_callback 35000 near (pending_at spot)
          = ([OnLocationUpdate near], pending_at spot\<lparr>lastLocation := Some near\<rparr>)"
    using spot_near by (simp add: feed pending_at_def)
  have "calculateDistance spot near \<le> 50"
    using spot_near by simp
  then have "fst (watchPosition_callback 35000 near (parked_at spot)) = [OnLocationUpdate near]"
    by (intro feed_parked_stay) (simp_all add: parked_at_fields)
  then have c: "fst (step 35000 (Position near) (pending_at spot))
                  = [OnParkingDetected spot, OnLocationUpdate near]"
    by (simp add: step_pending_confirm)
  show ?thesis
    by (intro conjI run_pending a b c spot_near points_differ)
qed

subsection \<open>C5: what survives a stop\<close>

text \<open>
  C5, as the code has it. The machine is created empty: not parked, no stored coordinate,
  no subscription, no pending timer. \<^verbatim>\<open>stopLocationTracking\<close> clears the subscription and
  the pending confirm-timer, so no timer survives the stop; it leaves the parked flag and
  the stored coordinate as they were, and so does \<^verbatim>\<open>startLocationTracking\<close>. The next
  session continues from them: after a stop and a start, a machine that was parked is
  still parked at the same stored coordinate, and its first sample, if more than 50 m
  from that coordinate, is answered by a leaving event for it.
\<close>

theorem C5_stop_keeps_flag_and_coordinate:
  "watchId new_LocationService = None \<and> lastLocation new_LocationService = None
   \<and> \<not> isParked new_LocationService \<and> stationaryTimer new_LocationService = None
   \<and> timeouts new_LocationService = []
   \<and> watchId (stopLocationTracking s) = None
   \<and> stationaryTimer (stopLocationTracking s) = None
   \<and> timeouts (stopLocationTracking (snd (run tr new_LocationService))) = []
   \<and> isParked (stopLocationTracking s) = isParked s
   \<and> lastLocation (stopLocationTracking s) = lastLocation s
   \<and> isParked (startLocationTracking s) = isParked s
   \<and> lastLocation (startLocationTracking s) = lastLocation s
   \<and> isParked (startLocationTracking (stopLocationTracking s)) = isParked s
   \<and> lastLocation (startLocationTracking (stopLocationTracking s)) = lastLocation s
   \<and> (isParked s \<and> lastLocation s = Some p \<and> 50 < calculateDistance p l
      \<longrightarrow> fst (watchPosition_callback now l (startLocationTracking (stopLocationTracking s)))
          = [OnLocationUpdate l, OnLeavingDetected p])"
proof -
  have "timers_tracked (snd (run tr new_LocationService))"
    using timers_tracked_new by (rule run_timers_tracked)
  then have "timeouts (stopLocationTracking (snd (run tr new_LocationService))) = []"
    by (rule stop_timeouts)
  moreover have "watchId new_LocationService = None \<and> lastLocation new_LocationService = None
    \<and> \<not> isParked new_LocationService \<and> stationaryTimer new_LocationService = None
    \<and> timeouts new_LocationService = []"
    by (simp add: new_LocationService_def)
  moreover have "isParked s \<and> lastLocation s = Some p \<and> 50 < calculateDistance p l
      \<longrightarrow> fst (watchPosition_callback now l (startLocationTracking (stopLocationTracking s)))
          = [OnLocationUpdate l, OnLeavingDetected p]"
    by (simp add: feed_parked_leave start_fields stop_fields)
  ultimately show ?thesis by (simp add: stop_fields start_fields)
qed

text \<open>
  Stopping the session whose timer is pending: the timer is gone, the coordinate stays.
  Stopping and restarting the parked machine: still parked at \<open>spot\<close>, and the sample
  \<open>away\<close> is answered by a leaving event for \<open>spot\<close>.
\<close>

theorem C5_stop_keeps_flag_and_coordinate_witness:
  "timeouts (snd (run pending_trace new_LocationService))
     = [\<lparr>handle = 2, due = 35000, captured = spot\<rparr>]
   \<and> timeouts (stopLocationTracking (snd (run pending_trace new_LocationService))) = []
   \<and> isParked (parked_at spot) \<and> lastLocation (parked_at spot) = Some spot
   \<and> 50 < calculateDistance spot away
   \<and> isParked (startLocationTracking (stopLocationTracking (parked_at spot)))
   \<and> lastLocation (startLocationTracking (stopLocationTracking (parked_at spot))) = Some spot
   \<and> fst (watchPosition_callback 55000 away
             (startLocationTracking (stopLocationTracking (parked_at spot))))
       = [OnLocationUpdate away, OnLeavingDetected spot]"
proof -
  have "timeouts (snd (run pending_trace new_LocationService))
          = [\<lparr>handle = 2, due = 35000, captured = spot\<rparr>]"
    by (simp add: run_pending pending_at_def)
  then show ?thesis
    using C5_stop_keeps_flag_and_coordinate [of "parked_at spot" pending_trace spot away 55000]
      spot_away
    by (simp add: parked_at_fields)
qed

text \<open>
  The claim as stated fails. A session parks at \<open>spot\<close> and is stopped; a second session
  is started and its very first sample, \<open>away\<close>, is answered by a leaving event for
  \<open>spot\<close>. In a freshly created machine the same first sample makes no such call.
\<close>

theorem C5_restart_counterexample:
  "fst (run (park_trace @ [(40000, Stop), (50000, Start), (55000, Position away)])
         new_LocationService)
     = [OnLocationUpdate spot, OnLocationUpdate spot, OnParkingDetected spot,
        OnLocationUpdate spot, OnLocationUpdate away, OnLeavingDetected spot]
   \<and> isParked (snd (run (park_trace @ [(40000, Stop), (50000, Start)]) new_LocationService))
   \<and> lastLocation (snd (run (park_trace @ [(40000, Stop), (50000, Start)]) new_LocationService))
       = Some spot
   \<and> fst (run [(50000, Start), (55000, Position away)] new_LocationService)
       = [OnLocationUpdate away]"
proof -
  have 1: "run [(40000, Stop), (50000, Start)] (parked_at spot)
             = ([], (parked_at spot)\<lparr>watchId := Some 3, watches := [3], next_id := 4\<rparr>)"
    by (simp add: machine parked_at_def)
  have 2: "run [(40000, Stop), (50000, Start), (55000, Position away)] (parked_at spot)
             = ([OnLocationUpdate away, OnLeavingDetected spot],
                (parked_at away)\<lparr>watchId := Some 3, watches := [3], next_id := 4,
                  isParked := False\<rparr>)"
    using spot_away by (simp add: machine parked_at_def)
  have 3: "fst (run [(50000, Start), (55000, Position away)] new_LocationService)
             = [OnLocationUpdate away]"
    by (simp add: machine new_LocationService_def)
  show ?thesis
    unfolding run_append run_park fst_conv snd_conv 1 2 3
    by (simp add: parked_at_fields)
qed

subsection \<open>C6: nothing is reported after a stop\<close>

text \<open>
  C6, as the code has it. Stop the service after any history whatever. As long as the
  location source delivers nothing, no handler is called afterwards, however much time
  passes: the confirm-timer that was pending at the stop has been cancelled, so
  \<^verbatim>\<open>onParkingDetected\<close> is not called late. If tracking was started only while it was
  off, the stop has also removed the only subscription, and then nothing is reported
  until tracking is started again, whatever else happens. Stopping twice is the same as
  stopping once, and in such a history stopping while tracking is off changes nothing.
\<close>

theorem C6_no_park_after_stop:
  "(list_all (\<lambda>e. \<not> is_position (snd e)) later
      \<longrightarrow> fst (run later (stopLocationTracking (snd (run tr new_LocationService)))) = [])
   \<and> (no_double_start tr new_LocationService \<and> Start \<notin> snd ` set later
      \<longrightarrow> fst (run later (stopLocationTracking (snd (run tr new_LocationService)))) = [])
   \<and> stopLocationTracking (stopLocationTracking s) = stopLocationTracking s
   \<and> (no_double_start tr new_LocationService \<and> watchId (snd (run tr new_LocationService)) = None
      \<longrightarrow> stopLocationTracking (snd (run tr new_LocationService))
          = snd (run tr new_LocationService))"
proof (intro conjI impI)
  let ?s = "snd (run tr new_LocationService)"
  have "timers_tracked ?s"
    using timers_tracked_new by (rule run_timers_tracked)
  then have n: "no_timer (stopLocationTracking ?s)" by (rule no_timer_stop)
  {
    assume "list_all (\<lambda>e. \<not> is_position (snd e)) later"
    with n show "fst (run later (stopLocationTracking ?s)) = []" by (rule no_timer_run)
  }
  {
    assume a: "no_double_start tr new_LocationService \<and> Start \<notin> snd ` set later"
    then have "consistent ?s"
      using consistent_new by (intro consistent_run) simp_all
    then have "quiet (stopLocationTracking ?s)" by (rule quiet_stop)
    then show "fst (run later (stopLocationTracking ?s)) = []"
      using a by (intro quiet_run) simp_all
  }
  {
    assume a: "no_double_start tr new_LocationService \<and> watchId ?s = None"
    then have "consistent ?s"
      using consistent_new by (intro consistent_run) simp_all
    with a show "stopLocationTracking ?s = ?s"
      by (simp add: consistent_def stopLocationTracking_def)
  }
  show "stopLocationTracking (stopLocationTracking s) = stopLocationTracking s"
    by (rule stop_idempotent)
qed

text \<open>
  The session with the timer pending since 5 s is stopped; at 35 s and later nothing is
  reported. Stopping the machine that was never started changes nothing.
\<close>

theorem C6_no_park_after_stop_witness:
  "no_double_start pending_trace new_LocationService
   \<and> timeouts (snd (run pending_trace new_LocationService))
       = [\<lparr>handle = 2, due = 35000, captured = spot\<rparr>]
   \<and> fst (run [(35000, Wait), (70000, CurrentLocation (Some spot)), (80000, Stop), (90000, Wait)]
           (stopLocationTracking (snd (run pending_trace new_LocationService)))) = []
   \<and> fst (run [(35000, Wait), (60000, Position spot), (65000, Position spot), (95000, Wait)]
           (stopLocationTracking (snd (run pending_trace new_LocationService)))) = []
   \<and> stopLocationTracking new_LocationService = new_LocationService"
proof -
  have 1: "no_double_start pending_trace new_LocationService"
    by (simp add: pending_trace_def machine new_LocationService_def calculateDistance_same)
  have 2: "no_double_start [] new_LocationService" by simp
  have 3: "timeouts (snd (run pending_trace new_LocationService))
             = [\<lparr>handle = 2, due = 35000, captured = spot\<rparr>]"
    by (simp add: run_pending pending_at_def)
  have 4: "fst (run [(35000, Wait), (70000, CurrentLocation (Some spot)), (80000, Stop),
                    (90000, Wait)]
           (stopLocationTracking (snd (run pending_trace new_LocationService)))) = []"
    using C6_no_park_after_stop [of "[(35000, Wait), (70000, CurrentLocation (Some spot)),
        (80000, Stop), (90000, Wait)]" pending_trace]
    by simp
  have 5: "fst (run [(35000, Wait), (60000, Position spot), (65000, Position spot),
                    (95000, Wait)]
           (stopLocationTracking (snd (run pending_trace new_LocationService)))) = []"
    using 1 C6_no_park_after_stop [of "[(35000, Wait), (60000, Position spot),
        (65000, Position spot), (95000, Wait)]" pending_trace]
    by simp
  have "watchId (snd (run [] new_LocationService)) = None"
    by (simp add: new_LocationService_def)
  then have 6: "stopLocationTracking new_LocationService = new_LocationService"
    using 2 C6_no_park_after_stop [of "[]" "[]"] by simp
  show ?thesis
    by (intro conjI 1 3 4 5 6)
qed

text \<open>
  The claim as stated fails. Tracking is started twice and stopped once: the second
  start has overwritten \<^verbatim>\<open>watchId\<close>, so the stop clears the second subscription only.
  The first one still delivers: two samples at \<open>spot\<close> after the stop schedule a
  confirm-timer, and 30 s later \<^verbatim>\<open>onParkingDetected\<close> is called, with no start in
  between. Before that, with the timer pending and \<^verbatim>\<open>watchId\<close> null, a further stop is
  not a no-op: it clears the timer.
\<close>

theorem C6_double_start_counterexample:
  "fst (run [(0, Start), (1000, Start), (2000, Stop)] new_LocationService) = []
   \<and> fst (run [(0, Start), (1000, Start), (2000, Stop), (3000, Position spot),
               (4000, Position spot), (34000, Wait)] new_LocationService)
       = [OnLocationUpdate spot, OnLocationUpdate spot, OnParkingDetected spot]
   \<and> watchId (snd (run [(0, Start), (1000, Start), (2000, Stop), (3000, Position spot),
                         (4000, Position spot)] new_LocationService)) = None
   \<and> stopLocationTracking
         (snd (run [(0, Start), (1000, Start), (2000, Stop), (3000, Position spot),
                    (4000, Position spot)] new_LocationService))
       \<noteq> snd (run [(0, Start), (1000, Start), (2000, Stop), (3000, Position spot),
                    (4000, Position spot)] new_LocationService)"
  by (simp add: machine new_LocationService_def calculateDistance_same)

subsection \<open>C7: one pending timer\<close>

text \<open>
  C7. After every sequence of inputs to a freshly created service, the host holds at
  most one pending confirm-timer. A feed that arrives while a timer is pending schedules
  nothing: every timeout pending afterwards was pending before, and no handle has been
  handed out.
\<close>

theorem C7_at_most_one_pending_timer:
  "length (timeouts (snd (run tr new_LocationService))) \<le> 1
   \<and> (stationaryTimer s \<noteq> None
      \<longrightarrow> set (timeouts (snd (watchPosition_callback now l s))) \<subseteq> set (timeouts s)
          \<and> next_id (snd (watchPosition_callback now l s)) = next_id s)"
proof -
  have "timers_tracked (snd (run tr new_LocationService))"
    using timers_tracked_new by (rule run_timers_tracked)
  then have "length (timeouts (snd (run tr new_LocationService))) \<le> 1"
    by (rule timers_tracked_length)
  then show ?thesis
    using feed_pending [of s _ now l] by auto
qed

theorem C7_at_most_one_pending_timer_witness:
  "stationaryTimer (pending_at spot) \<noteq> None
   \<and> length (timeouts (snd (run (pending_trace @ [(6000, Position near)]) new_LocationService)))
       \<le> 1
   \<and> set (timeouts (snd (watchPosition_callback 6000 near (pending_at spot))))
       \<subseteq> set (timeouts (pending_at spot))
   \<and> next_id (snd (watchPosition_callback 6000 near (pending_at spot))) = 3"
  using C7_at_most_one_pending_timer
    [of "pending_trace @ [(6000, Position near)]" "pending_at spot" 6000 near]
  by (simp add: pending_at_def)

subsection \<open>C8: the first sample\<close>

text \<open>
  C8. Fed to a machine with no stored coordinate, a sample is recorded as the stored
  coordinate and neither \<^verbatim>\<open>onParkingDetected\<close> nor \<^verbatim>\<open>onLeavingDetected\<close> is called; only
  the raw position is forwarded to \<^verbatim>\<open>onLocationUpdate\<close>, and nothing else changes. So
  it is for the first sample of a session started on a freshly created service, whatever
  the sample.
\<close>

theorem C8_first_sample_sets_baseline:
  "(lastLocation s = None
      \<longrightarrow> watchPosition_callback now l s = ([OnLocationUpdate l], s\<lparr>lastLocation := Some l\<rparr>))
   \<and> run [(t0, Start), (t1, Position l)] new_LocationService
       = ([OnLocationUpdate l],
          new_LocationService\<lparr>watchId := Some 1, lastLocation := Some l, watches := [1],
            next_id := 2\<rparr>)"
  by (simp add: feed_fresh) (simp add: machine new_LocationService_def)

theorem C8_first_sample_sets_baseline_witness:
  "lastLocation (startLocationTracking new_LocationService) = None
   \<and> fst (watchPosition_callback 0 away (startLocationTracking new_LocationService))
       = [OnLocationUpdate away]
   \<and> lastLocation (snd (watchPosition_callback 0 away (startLocationTracking new_LocationService)))
       = Some away"
  using C8_first_sample_sets_baseline [of "startLocationTracking new_LocationService" 0 away]
  by (simp add: startLocationTracking_def watchPosition_def new_LocationService_def)

subsection \<open>C9: symmetry of the distance\<close>




subsection \<open>C10: the on-demand fix is a baseline\<close>

text \<open>
  C10. A successful \<^verbatim>\<open>getCurrentLocation\<close> resolves with the fix and stores it as the
  last-seen coordinate, in every machine. The next sample fed by tracking is then measured
  against the fix: if it is less than 20 m from it, and the machine is not parked and has
  no timer pending, that sample schedules the confirm-timer at once.
\<close>

theorem C10_fix_becomes_last_location:
  "fst (getCurrentLocation (Some position) s) = Some position
   \<and> lastLocation (snd (getCurrentLocation (Some position) s)) = Some position
   \<and> (\<not> isParked s \<and> stationaryTimer s = None \<and> calculateDistance position l < 20
      \<longrightarrow> watchPosition_callback now l (snd (getCurrentLocation (Some position) s))
          = ([OnLocationUpdate l],
             s\<lparr>lastLocation := Some l, stationaryTimer := Some (next_id s),
               timeouts := timeouts s @ [\<lparr>handle = next_id s, due = now + 30000, captured = l\<rparr>],
               next_id := Suc (next_id s)\<rparr>))"
proof -
  have s: "snd (getCurrentLocation (Some position) s) = s\<lparr>lastLocation := Some position\<rparr>"
    by (simp add: getCurrentLocation_def)
  show ?thesis
    using feed_schedules [of "s\<lparr>lastLocation := Some position\<rparr>" position l now]
    by (auto simp add: s getCurrentLocation_def)
qed

text \<open>
  On a freshly created service: the fix \<open>spot\<close>, tracking started, and the first tracked
  sample \<open>near\<close> schedules the timer, where without the fix it would only be recorded.
\<close>

theorem C10_fix_becomes_last_location_witness:
  "\<not> isParked (startLocationTracking new_LocationService)
   \<and> stationaryTimer (startLocationTracking new_LocationService) = None
   \<and> calculateDistance spot near < 20
   \<and> timeouts (snd (watchPosition_callback 1000 near
        (snd (getCurrentLocation (Some spot) (startLocationTracking new_LocationService)))))
       = [\<lparr>handle = 2, due = 31000, captured = near\<rparr>]
   \<and> timeouts (snd (watchPosition_callback 1000 near (startLocationTracking new_LocationService)))
       = []"
  using C10_fix_becomes_last_location
    [of spot "startLocationTracking new_LocationService" near 1000] spot_near
    feed_fresh [of "startLocationTracking new_LocationService" 1000 near]
  by (simp add: startLocationTracking_def watchPosition_def new_LocationService_def)

end
